theory Spec2Isabelle
  imports Main
begin

section \<open>Authentication: data model\<close>

text \<open>
  Modelled from the spec: the User schema (the models directory) is not part of the
  sources. The spec gives the record as id, email, name, password (hashed), attempt
  (a non-negative integer, the failed-login counter) and updatedOn (a timestamp,
  null until the first failure). The JavaScript field \<open>id\<close> is called \<open>user_id\<close> here.
  Timestamps are the milliseconds of \<open>Date.getTime()\<close>; the counter is a JavaScript
  number, exact for every natural number below \<open>2 ^ 53\<close>.
\<close>

record user =
  user_id :: string
  email :: string
  name :: string
  password :: string
  attempt :: nat
  updatedOn :: "int option"

text \<open>
  The value returned on a successful login:
  \<open>{email, name, user_id, token}\<close>.
\<close>

record session =
  session_email :: string
  session_name :: string
  session_user_id :: string
  session_token :: string

text \<open>
  What \<open>checkLoginCredentials\<close> can throw: the error built by
  \<open>errorResponder(errorTypes.FORBIDDEN, message)\<close>, and the \<open>TypeError\<close> that
  JavaScript raises when a property of \<open>null\<close> is read.
\<close>

datatype error = Forbidden string | TypeError

text \<open>
  Every call the service makes to a collaborator is recorded, in the order of the calls,
  so that "the password matcher is (not) invoked" is a statement about the record.
\<close>

datatype event =
    GetUserByEmail string
  | ResetAttempt string
  | LoginAttempt string nat
  | LoginSuccess string
  | PasswordMatched string string
  | GenerateToken string string

record world =
  docs :: "user list"
  calls :: "event list"

section \<open>Authentication repository\<close>

text \<open>
  \<open>User.findOne({email})\<close> returns the first document of the collection with that
  email, or null; \<open>User.updateOne({email}, {$set: ...})\<close> changes the first such
  document and nothing when there is none.
\<close>

fun findOne :: "string \<Rightarrow> user list \<Rightarrow> user option" where
  "findOne e [] = None"
| "findOne e (u # us) = (if email u = e then Some u else findOne e us)"

fun updateOne :: "string \<Rightarrow> (user \<Rightarrow> user) \<Rightarrow> user list \<Rightarrow> user list" where
  "updateOne e f [] = []"
| "updateOne e f (u # us) = (if email u = e then f u # us else u # updateOne e f us)"

definition getUserByEmail :: "world \<Rightarrow> string \<Rightarrow> user option \<times> world" where
  "getUserByEmail w e = (findOne e (docs w), w\<lparr>calls := calls w @ [GetUserByEmail e]\<rparr>)"

text \<open>\<open>now\<close> is the value of \<open>new Date()\<close> read inside \<open>loginAttempt\<close>.\<close>

definition loginAttempt :: "int \<Rightarrow> world \<Rightarrow> string \<Rightarrow> nat \<Rightarrow> world" where
  "loginAttempt now w e a =
     w\<lparr>docs := updateOne e (\<lambda>u. u\<lparr>updatedOn := Some now, attempt := a\<rparr>) (docs w),
       calls := calls w @ [LoginAttempt e a]\<rparr>"

definition loginSuccess :: "world \<Rightarrow> string \<Rightarrow> world" where
  "loginSuccess w e =
     w\<lparr>docs := updateOne e (\<lambda>u. u\<lparr>attempt := 0\<rparr>) (docs w),
       calls := calls w @ [LoginSuccess e]\<rparr>"

definition resetAttempt :: "world \<Rightarrow> string \<Rightarrow> world" where
  "resetAttempt w e =
     w\<lparr>docs := updateOne e (\<lambda>u. u\<lparr>attempt := 0\<rparr>) (docs w),
       calls := calls w @ [ResetAttempt e]\<rparr>"

section \<open>Authentication service\<close>

text \<open>
  The lockout window of the source, \<open>1 * 10 * 1000\<close> milliseconds, and the number of
  failed attempts that are tolerated.
\<close>

definition window :: int where
  "window = 1 * 10 * 1000"

definition threshold :: nat where
  "threshold = 5"

definition locked_message :: string where
  "locked_message = ''Too many failed login attempts,wait 30 Minutes before try again !!''"

definition filler :: string where
  "filler = ''<RANDOM_PASSWORD_FILLER>''"

text \<open>
  Lines 16 to 32 of the service. Reading \<open>user.updatedOn\<close> of a null user throws. A
  \<open>Date\<close> object is truthy, so the test \<open>if (user.updatedOn)\<close> asks whether the
  field is set. \<open>now\<close> is the \<open>new Date()\<close> of line 18. The repository calls are not
  awaited by the source; they take effect here in the order in which they are issued.
\<close>

definition evaluateLockout :: "int \<Rightarrow> user option \<Rightarrow> string \<Rightarrow> world \<Rightarrow> error + world" where
  "evaluateLockout now usr e w =
     (case usr of
        None \<Rightarrow> Inl TypeError
      | Some u \<Rightarrow>
          (case updatedOn u of
             None \<Rightarrow> Inr w
           | Some t \<Rightarrow>
               (let after30Minutes = t + window in
                if attempt u > threshold \<and> after30Minutes > now then Inl (Forbidden locked_message)
                else if attempt u > threshold \<and> after30Minutes < now then Inr (resetAttempt w e)
                else Inr w)))"

text \<open>
  \<open>passwordMatched\<close> and \<open>generateToken\<close> are the two utilities the service imports;
  they are parameters. \<open>now1\<close> is the clock read by the lockout evaluation, \<open>now2\<close>
  the clock read by \<open>loginAttempt\<close>. The result is what the function returns
  (\<open>Inr None\<close> is null) or throws (\<open>Inl\<close>), with the world it leaves behind.
\<close>

definition checkLoginCredentials ::
  "(string \<Rightarrow> string \<Rightarrow> bool) \<Rightarrow> (string \<Rightarrow> string \<Rightarrow> string) \<Rightarrow> int \<Rightarrow> int \<Rightarrow>
   world \<Rightarrow> string \<Rightarrow> string \<Rightarrow> (error + session option) \<times> world" where
  "checkLoginCredentials passwordMatched generateToken now1 now2 w e pw =
     (let (usr, w1) = getUserByEmail w e in
      case evaluateLockout now1 usr e w1 of
        Inl err \<Rightarrow> (Inl err, w1)
      | Inr w2 \<Rightarrow>
          (let userPassword = (case usr of Some u \<Rightarrow> password u | None \<Rightarrow> filler);
               passwordChecked = passwordMatched pw userPassword;
               w3 = w2\<lparr>calls := calls w2 @ [PasswordMatched pw userPassword]\<rparr>
           in case (usr, passwordChecked) of
                (Some u, True) \<Rightarrow>
                  (Inr (Some \<lparr>session_email = email u, session_name = name u,
                               session_user_id = user_id u,
                               session_token = generateToken (email u) (user_id u)\<rparr>),
                   w3\<lparr>calls := calls w3 @ [GenerateToken (email u) (user_id u)]\<rparr>)
              | _ \<Rightarrow>
                  (let (user2, w4) = getUserByEmail w3 e in
                   case user2 of
                     None \<Rightarrow> (Inl TypeError, w4)
                   | Some u2 \<Rightarrow> (Inr None, loginAttempt now2 w4 e (attempt u2 + 1)))))"

text \<open>The record of the user with email \<open>e\<close> that the repository holds.\<close>

definition stored :: "world \<Rightarrow> string \<Rightarrow> user option" where
  "stored w e = findOne e (docs w)"

section \<open>Users controller: JavaScript built-ins\<close>

text \<open>
  \<open>String.prototype.split\<close> with a one-character separator: the pieces between the
  occurrences of the separator, always at least one piece.
\<close>

fun split :: "char \<Rightarrow> string \<Rightarrow> string list" where
  "split c [] = [[]]"
| "split c (x # xs) =
     (if x = c then [] # split c xs
      else (case split c xs of [] \<Rightarrow> [[x]] | y # ys \<Rightarrow> (x # y) # ys))"

text \<open>Reading an array at an index: \<open>undefined\<close> (here \<open>None\<close>) out of range.\<close>

fun at_index :: "'a list \<Rightarrow> nat \<Rightarrow> 'a option" where
  "at_index [] i = None"
| "at_index (x # xs) 0 = Some x"
| "at_index (x # xs) (Suc i) = at_index xs i"

text \<open>
  A string is the UTF-8 bytes of the JavaScript string. The white space that \<open>parseInt\<close>
  skips is the white space and the line terminators of the language: the six ASCII
  characters, U+00A0 (two bytes), and U+1680, U+2000 to U+200A, U+2028, U+2029, U+202F,
  U+205F, U+3000 and U+FEFF (three bytes each).
\<close>

definition isWhiteSpace :: "char \<Rightarrow> bool" where
  "isWhiteSpace c = ((of_char c :: nat) \<in> {9, 10, 11, 12, 13, 32})"

definition isWhiteSpace2 :: "char \<Rightarrow> char \<Rightarrow> bool" where
  "isWhiteSpace2 a b = ((of_char a :: nat) = 194 \<and> (of_char b :: nat) = 160)"

definition isWhiteSpace3 :: "char \<Rightarrow> char \<Rightarrow> char \<Rightarrow> bool" where
  "isWhiteSpace3 a b c =
     (let x = (of_char a :: nat); y = (of_char b :: nat); z = (of_char c :: nat) in
      (x = 225 \<and> y = 154 \<and> z = 128)
      \<or> (x = 226 \<and> y = 128 \<and> (128 \<le> z \<and> z \<le> 138 \<or> z = 168 \<or> z = 169 \<or> z = 175))
      \<or> (x = 226 \<and> y = 129 \<and> z = 159)
      \<or> (x = 227 \<and> y = 128 \<and> z = 128)
      \<or> (x = 239 \<and> y = 187 \<and> z = 191))"

fun skipWhiteSpace :: "string \<Rightarrow> string" where
  "skipWhiteSpace (a # b # c # s) =
     (if isWhiteSpace a then skipWhiteSpace (b # c # s)
      else if isWhiteSpace2 a b then skipWhiteSpace (c # s)
      else if isWhiteSpace3 a b c then skipWhiteSpace s
      else a # b # c # s)"
| "skipWhiteSpace [a, b] =
     (if isWhiteSpace a then skipWhiteSpace [b]
      else if isWhiteSpace2 a b then []
      else [a, b])"
| "skipWhiteSpace [a] = (if isWhiteSpace a then [] else [a])"
| "skipWhiteSpace [] = []"

text \<open>
  A JavaScript number is a double: an integer below \<open>2 ^ 53\<close> is exact, a larger one is
  rounded to the nearest double, to the even one of two that are equally near.
  \<open>bitsAbove n\<close> is the number of bits that \<open>n\<close> has beyond 53. An integer beyond the
  largest double (\<open>Infinity\<close>, for more than 308 decimal digits) is outside this model.
\<close>

function bitsAbove :: "int \<Rightarrow> nat" where
  "bitsAbove n = (if n < 2 ^ 53 then 0 else Suc (bitsAbove (n div 2)))"
  by pat_completeness auto
termination
  by (relation "measure nat") auto

declare bitsAbove.simps [simp del]

definition toDouble :: "int \<Rightarrow> int" where
  "toDouble n =
     (if n < 2 ^ 53 then n
      else (let e = bitsAbove n; q = n div 2 ^ e; r = n mod 2 ^ e
            in if 2 ^ e < 2 * r \<or> (2 * r = 2 ^ e \<and> odd q) then (q + 1) * 2 ^ e else q * 2 ^ e))"

text \<open>
  \<open>parseInt\<close> with no radix: leading white space is skipped, then an optional sign,
  then an optional \<open>0x\<close> or \<open>0X\<close> (which selects radix 16), then the longest run of
  digits of the radix; no digit gives \<open>NaN\<close> (here \<open>None\<close>).
\<close>

definition digitValue :: "char \<Rightarrow> nat option" where
  "digitValue c =
     (let n = (of_char c :: nat) in
      if 48 \<le> n \<and> n \<le> 57 then Some (n - 48)
      else if 97 \<le> n \<and> n \<le> 122 then Some (n - 87)
      else if 65 \<le> n \<and> n \<le> 90 then Some (n - 55)
      else None)"

definition isDigitOf :: "nat \<Rightarrow> char \<Rightarrow> bool" where
  "isDigitOf radix c = (case digitValue c of None \<Rightarrow> False | Some d \<Rightarrow> d < radix)"

definition digitsValue :: "nat \<Rightarrow> string \<Rightarrow> int" where
  "digitsValue radix ds =
     foldl (\<lambda>acc c. acc * int radix + (case digitValue c of None \<Rightarrow> 0 | Some d \<Rightarrow> int d)) 0 ds"

definition parseInt :: "string option \<Rightarrow> int option" where
  "parseInt input =
     (case input of
        None \<Rightarrow> None
      | Some s \<Rightarrow>
          (let s1 = skipWhiteSpace s;
               (sign, s2) = (case s1 of
                               [] \<Rightarrow> (1 :: int, s1)
                             | c # r \<Rightarrow> if c = CHR ''-'' then (- 1, r)
                                        else if c = CHR ''+'' then (1, r) else (1, s1));
               (radix, s3) = (if take 2 s2 = ''0x'' \<or> take 2 s2 = ''0X'' then (16 :: nat, drop 2 s2)
                              else (10, s2));
               ds = takeWhile (isDigitOf radix) s3
           in if ds = [] then None else Some (sign * toDouble (digitsValue radix ds))))"

text \<open>\<open>x || null\<close> for a number \<open>x\<close>: \<open>NaN\<close> and \<open>0\<close> are falsy.\<close>

definition or_null :: "int option \<Rightarrow> int option" where
  "or_null x = (case x of None \<Rightarrow> None | Some n \<Rightarrow> if n = 0 then None else Some n)"

text \<open>\<open>null\<close> is \<open>0\<close> in arithmetic and in comparisons with a number.\<close>

definition toNumber :: "int option \<Rightarrow> int" where
  "toNumber x = (case x of None \<Rightarrow> 0 | Some n \<Rightarrow> n)"

text \<open>
  A query parameter is truthy when it is present and not the empty string.
\<close>

definition truthy :: "string option \<Rightarrow> bool" where
  "truthy x = (case x of None \<Rightarrow> False | Some s \<Rightarrow> s \<noteq> [])"

text \<open>
  \<open>Array.prototype.slice(start, end)\<close>: a negative index counts from the end of the
  array, and both indices are clamped to the array.
\<close>

definition slice :: "'a list \<Rightarrow> int \<Rightarrow> int \<Rightarrow> 'a list" where
  "slice xs start fin =
     (let len = int (length xs);
          k = (if start < 0 then max (len + start) 0 else min start len);
          final = (if fin < 0 then max (len + fin) 0 else min fin len)
      in take (nat (final - k)) (drop (nat k) xs))"

text \<open>
  The value of \<open>Math.ceil(totalUsers / pageSize)\<close>: division by zero gives \<open>Infinity\<close>,
  or \<open>NaN\<close> when the dividend is zero too.
\<close>

datatype js_number = Num int | Infinity | NaN

definition ceil_div :: "nat \<Rightarrow> int \<Rightarrow> js_number" where
  "ceil_div n d =
     (if d = 0 then (if n = 0 then NaN else Infinity)
      else Num (- ((- int n) div d)))"

text \<open>
  \<open>Array.prototype.sort\<close> with a comparator is a stable sort: an element goes before
  the first element that the comparator does not put in front of it.
\<close>

fun insert_by :: "('a \<Rightarrow> 'a \<Rightarrow> int) \<Rightarrow> 'a \<Rightarrow> 'a list \<Rightarrow> 'a list" where
  "insert_by cmp x [] = [x]"
| "insert_by cmp x (y # ys) = (if cmp x y \<le> 0 then x # y # ys else y # insert_by cmp x ys)"

definition sort_by :: "('a \<Rightarrow> 'a \<Rightarrow> int) \<Rightarrow> 'a list \<Rightarrow> 'a list" where
  "sort_by cmp xs = foldr (insert_by cmp) xs []"

section \<open>Users controller\<close>

definition isValidSortField :: "string option \<Rightarrow> string" where
  "isValidSortField field =
     (case field of
        None \<Rightarrow> ''email''
      | Some f \<Rightarrow> if f \<in> set [''email'', ''name''] then f else ''email'')"

definition isValidSortOrder :: "string option \<Rightarrow> string" where
  "isValidSortOrder order =
     (case order of
        None \<Rightarrow> ''asc''
      | Some f \<Rightarrow> if f \<in> set [''asc'', ''desc''] then f else ''asc'')"

definition isValidSearchField :: "string option \<Rightarrow> string option" where
  "isValidSearchField field =
     (case field of
        None \<Rightarrow> None
      | Some f \<Rightarrow> if f \<in> set [''email'', ''name''] then Some f else None)"

text \<open>The query string of the request: each parameter is a string or absent.\<close>

record query =
  q_page_number :: "string option"
  q_page_size :: "string option"
  q_search :: "string option"
  q_sort :: "string option"

record response =
  page_number :: "int option"
  page_size :: "int option"
  count :: nat
  total_pages :: js_number
  has_previous_page :: bool
  has_next_page :: bool
  users :: "user list"

text \<open>The six values that \<open>getUsers\<close> computes from the query (lines 14 to 27).\<close>

definition pageNumber :: "query \<Rightarrow> int option" where
  "pageNumber q = or_null (parseInt (q_page_number q))"

definition pageSize :: "query \<Rightarrow> int option" where
  "pageSize q = or_null (parseInt (q_page_size q))"

definition searchField :: "query \<Rightarrow> string option" where
  "searchField q =
     (if truthy (q_search q) then isValidSearchField (at_index (split CHR '':'' (the (q_search q))) 0)
      else None)"

definition searchKey :: "query \<Rightarrow> string option" where
  "searchKey q =
     (if truthy (q_search q) then at_index (split CHR '':'' (the (q_search q))) 1 else None)"

definition sortField :: "query \<Rightarrow> string" where
  "sortField q =
     (if truthy (q_sort q) then isValidSortField (at_index (split CHR '':'' (the (q_sort q))) 0)
      else ''email'')"

definition sortOrder :: "query \<Rightarrow> string" where
  "sortOrder q =
     (if truthy (q_sort q) then isValidSortOrder (at_index (split CHR '':'' (the (q_sort q))) 1)
      else ''asc'')"

text \<open>
  \<open>a[sortField]\<close>: the string property of a user with that name. A user has no other
  string property, and \<open>localeCompare\<close> cannot be called on anything else.
\<close>

definition prop_of :: "user \<Rightarrow> string \<Rightarrow> string option" where
  "prop_of u f =
     (if f = ''email'' then Some (email u)
      else if f = ''name'' then Some (name u)
      else if f = ''id'' then Some (user_id u)
      else if f = ''password'' then Some (password u)
      else None)"

text \<open>
  The comparator given to \<open>sort\<close>. \<open>localeCompare\<close> is the string comparison of the
  JavaScript engine and a parameter here.
\<close>

definition compareUsers :: "(string \<Rightarrow> string \<Rightarrow> int) \<Rightarrow> string \<Rightarrow> string \<Rightarrow> user \<Rightarrow> user \<Rightarrow> int" where
  "compareUsers localeCompare order field a b =
     (if order = ''asc'' then localeCompare (the (prop_of a field)) (the (prop_of b field))
      else localeCompare (the (prop_of b field)) (the (prop_of a field)))"

text \<open>
  \<open>getUsers\<close>. The users service is not part of the sources: \<open>service\<close> is its
  \<open>getUsers\<close>, applied to the six arguments the controller passes. The comparator runs
  as soon as there are two users, and calling \<open>localeCompare\<close> on \<open>undefined\<close> throws;
  the \<open>catch\<close> hands the error to \<open>next\<close> (here \<open>Inl\<close>). \<open>sort\<close> works in place:
  \<open>filteredUsers\<close> and \<open>sortedUsers\<close> are one array after it.
\<close>

definition getUsers ::
  "(string \<Rightarrow> string \<Rightarrow> int) \<Rightarrow>
   (int option \<Rightarrow> int option \<Rightarrow> string option \<Rightarrow> string option \<Rightarrow> string \<Rightarrow> string \<Rightarrow> user list) \<Rightarrow>
   query \<Rightarrow> error + response" where
  "getUsers localeCompare service q =
     (let filteredUsers = service (pageNumber q) (pageSize q) (searchField q) (searchKey q)
                            (sortField q) (sortOrder q)
      in if 2 \<le> length filteredUsers \<and> list_ex (\<lambda>u. prop_of u (sortField q) = None) filteredUsers
         then Inl TypeError
         else
           (let sortedUsers = sort_by (compareUsers localeCompare (sortOrder q) (sortField q)) filteredUsers;
                startIndex = (toNumber (pageNumber q) - 1) * toNumber (pageSize q);
                endIndex = startIndex + toNumber (pageSize q);
                usersForPage = slice sortedUsers startIndex endIndex;
                totalUsers = length sortedUsers;
                totalPages = ceil_div totalUsers (toNumber (pageSize q));
                hasPreviousPage = (toNumber (pageNumber q) > 1);
                hasNextPage = (endIndex < int totalUsers)
            in Inr \<lparr>page_number = pageNumber q, page_size = pageSize q, count = length sortedUsers,
                     total_pages = totalPages, has_previous_page = hasPreviousPage,
                     has_next_page = hasNextPage, users = usersForPage\<rparr>))"

section \<open>Calls of one run, and a small repository to run on\<close>

text \<open>The calls that were added to the record between the world \<open>w\<close> and the world \<open>w'\<close>.\<close>

definition new_calls :: "world \<Rightarrow> world \<Rightarrow> event list" where
  "new_calls w w' = drop (length (calls w)) (calls w')"

text \<open>
  Two users, a password matcher and a token issuer on which the functions are run: the
  stored hash of a password \<open>p\<close> is taken to be \<open>hash-of-p\<close>.
\<close>

definition alice :: user where
  "alice = \<lparr>user_id = ''u1'', email = ''alice@example.com'', name = ''Alice'',
            password = ''hash-of-secret'', attempt = 6, updatedOn = Some 0\<rparr>"

definition bob :: user where
  "bob = \<lparr>user_id = ''u2'', email = ''bob@example.com'', name = ''Bob'',
          password = ''hash-of-hunter2'', attempt = 0, updatedOn = None\<rparr>"

definition example_matcher :: "string \<Rightarrow> string \<Rightarrow> bool" where
  "example_matcher pw h = (h = ''hash-of-'' @ pw)"

definition example_token :: "string \<Rightarrow> string \<Rightarrow> string" where
  "example_token e i = ''token-'' @ i"

definition example_world :: "user \<Rightarrow> world" where
  "example_world u = \<lparr>docs = [bob, u], calls = []\<rparr>"

text \<open>
  A comparison of strings by their character codes to run \<open>getUsers\<close> with, a users
  service that returns five users whatever it is asked, and two queries.
\<close>

fun example_compare :: "string \<Rightarrow> string \<Rightarrow> int" where
  "example_compare [] [] = 0"
| "example_compare [] (y # ys) = - 1"
| "example_compare (x # xs) [] = 1"
| "example_compare (x # xs) (y # ys) =
     (if (of_char x :: nat) < of_char y then - 1
      else if (of_char y :: nat) < of_char x then 1
      else example_compare xs ys)"

definition listed :: "string \<Rightarrow> string \<Rightarrow> user" where
  "listed i n = \<lparr>user_id = i, email = n @ ''@example.com'', name = n,
                 password = [], attempt = 0, updatedOn = None\<rparr>"

definition five_users :: "user list" where
  "five_users = [listed ''4'' ''dan'', listed ''2'' ''bea'', listed ''5'' ''eve'',
                 listed ''1'' ''ann'', listed ''3'' ''cid'']"

definition example_service ::
  "int option \<Rightarrow> int option \<Rightarrow> string option \<Rightarrow> string option \<Rightarrow> string \<Rightarrow> string \<Rightarrow> user list" where
  "example_service pn ps sf sk f ord = five_users"

definition example_query :: "string option \<Rightarrow> string option \<Rightarrow> query" where
  "example_query pn ps = \<lparr>q_page_number = pn, q_page_size = ps, q_search = None, q_sort = Some ''name:asc''\<rparr>"

definition odd_query :: query where
  "odd_query = \<lparr>q_page_number = None, q_page_size = None, q_search = Some ''password:x'',
                 q_sort = Some ''attempt:up''\<rparr>"

section \<open>The repository operations\<close>

text \<open>
  An update that keeps the email changes exactly the record that a lookup of that email
  returns.
\<close>

lemma findOne_updateOne:
  "(\<And>u. email (f u) = email u) \<Longrightarrow> findOne e (updateOne e f us) = map_option f (findOne e us)"
  by (induction us) auto

lemma stored_resetAttempt:
  "stored (resetAttempt w e) e = map_option (\<lambda>u. u\<lparr>attempt := 0\<rparr>) (stored w e)"
  by (simp add: stored_def resetAttempt_def findOne_updateOne)

lemma stored_loginSuccess:
  "stored (loginSuccess w e) e = map_option (\<lambda>u. u\<lparr>attempt := 0\<rparr>) (stored w e)"
  by (simp add: stored_def loginSuccess_def findOne_updateOne)

lemma stored_loginAttempt:
  "stored (loginAttempt now w e a) e =
     map_option (\<lambda>u. u\<lparr>updatedOn := Some now, attempt := a\<rparr>) (stored w e)"
  by (simp add: stored_def loginAttempt_def findOne_updateOne)

lemma stored_calls_update: "stored (w\<lparr>calls := c\<rparr>) e = stored w e"
  by (simp add: stored_def)

lemma calls_resetAttempt: "calls (resetAttempt w e) = calls w @ [ResetAttempt e]"
  by (simp add: resetAttempt_def)

lemma calls_loginAttempt: "calls (loginAttempt now w e a) = calls w @ [LoginAttempt e a]"
  by (simp add: loginAttempt_def)

section \<open>The lockout evaluation\<close>

text \<open>The ways through the lockout evaluation of an existing user.\<close>

lemma evaluateLockout_unset:
  "updatedOn u = None \<Longrightarrow> evaluateLockout now (Some u) e w = Inr w"
  by (simp add: evaluateLockout_def)

lemma evaluateLockout_locked:
  "updatedOn u = Some t \<Longrightarrow> threshold < attempt u \<Longrightarrow> now < t + window \<Longrightarrow>
   evaluateLockout now (Some u) e w = Inl (Forbidden locked_message)"
  by (simp add: evaluateLockout_def)

lemma evaluateLockout_expired:
  "updatedOn u = Some t \<Longrightarrow> threshold < attempt u \<Longrightarrow> t + window < now \<Longrightarrow>
   evaluateLockout now (Some u) e w = Inr (resetAttempt w e)"
  by (simp add: evaluateLockout_def)

lemma evaluateLockout_boundary:
  "updatedOn u = Some t \<Longrightarrow> now = t + window \<Longrightarrow> evaluateLockout now (Some u) e w = Inr w"
  by (simp add: evaluateLockout_def)

lemma evaluateLockout_below:
  "attempt u \<le> threshold \<Longrightarrow> evaluateLockout now (Some u) e w = Inr w"
  by (simp add: evaluateLockout_def split: option.splits)

lemma evaluateLockout_cases:
  "evaluateLockout now (Some u) e w = Inl (Forbidden locked_message)
   \<or> evaluateLockout now (Some u) e w = Inr w
   \<or> (evaluateLockout now (Some u) e w = Inr (resetAttempt w e) \<and> threshold < attempt u)"
  by (simp add: evaluateLockout_def Let_def split: option.splits)

text \<open>
  What the service does with an existing user, when the lockout evaluation throws and when
  it lets the user through.
\<close>

lemma checkLoginCredentials_thrown:
  assumes "stored w e = Some u"
    and "evaluateLockout now1 (Some u) e (w\<lparr>calls := calls w @ [GetUserByEmail e]\<rparr>) = Inl err"
  shows "checkLoginCredentials pm gt now1 now2 w e pw =
           (Inl err, w\<lparr>calls := calls w @ [GetUserByEmail e]\<rparr>)"
  using assms by (simp add: checkLoginCredentials_def getUserByEmail_def stored_def)

lemma checkLoginCredentials_passed:
  assumes "stored w e = Some u"
    and "evaluateLockout now1 (Some u) e (w\<lparr>calls := calls w @ [GetUserByEmail e]\<rparr>) = Inr w2"
  shows "checkLoginCredentials pm gt now1 now2 w e pw =
     (if pm pw (password u)
      then (Inr (Some \<lparr>session_email = email u, session_name = name u,
                        session_user_id = user_id u, session_token = gt (email u) (user_id u)\<rparr>),
            w2\<lparr>calls := calls w2 @ [PasswordMatched pw (password u), GenerateToken (email u) (user_id u)]\<rparr>)
      else (case stored w2 e of
              None \<Rightarrow> (Inl TypeError,
                        w2\<lparr>calls := calls w2 @ [PasswordMatched pw (password u), GetUserByEmail e]\<rparr>)
            | Some u2 \<Rightarrow> (Inr None,
                loginAttempt now2 (w2\<lparr>calls := calls w2 @ [PasswordMatched pw (password u), GetUserByEmail e]\<rparr>)
                  e (attempt u2 + 1))))"
  using assms
  by (simp add: checkLoginCredentials_def getUserByEmail_def stored_def split: option.splits)

section \<open>Properties of the authentication service\<close>

text \<open>
  Claim C1. For an email with no user record, \<open>checkLoginCredentials\<close> is claimed to
  raise no fault, to run the password check against the filler credential and to return
  null. The code reads \<open>user.updatedOn\<close> before it tests \<open>user\<close>: for every such email
  it throws a \<open>TypeError\<close> right after the lookup, and the only call it has made is the
  lookup, so the password matcher has not run.
\<close>

theorem unknown_email_throws:
  assumes "stored w e = None"
  shows "checkLoginCredentials pm gt now1 now2 w e pw =
           (Inl TypeError, w\<lparr>calls := calls w @ [GetUserByEmail e]\<rparr>)"
  using assms
  by (simp add: checkLoginCredentials_def getUserByEmail_def evaluateLockout_def stored_def)

theorem unknown_email_throws_witness:
  "stored (example_world alice) ''ghost@example.com'' = None
   \<and> checkLoginCredentials example_matcher example_token 5000 5001 (example_world alice)
        ''ghost@example.com'' ''secret''
      = (Inl TypeError, \<lparr>docs = [bob, alice], calls = [GetUserByEmail ''ghost@example.com'']\<rparr>)"
proof -
  have h: "stored (example_world alice) ''ghost@example.com'' = None"
    by (simp add: stored_def example_world_def alice_def bob_def)
  from unknown_email_throws [OF h, of example_matcher example_token 5000 5001 "''secret''"] h
  show ?thesis by (simp add: example_world_def)
qed

text \<open>
  Claim C2. After a successful login the attempt counter is claimed to be 0. The service
  never calls \<open>loginSuccess\<close>: for a user whose counter is at most the threshold and
  whose password matches, it returns the session descriptor after three calls (lookup,
  password check, token) and the stored record is the one it found, counter included.
\<close>

theorem success_keeps_counter:
  assumes "stored w e = Some u" and "attempt u \<le> threshold" and "pm pw (password u)"
  shows "fst (checkLoginCredentials pm gt now1 now2 w e pw) =
           Inr (Some \<lparr>session_email = email u, session_name = name u,
                       session_user_id = user_id u, session_token = gt (email u) (user_id u)\<rparr>)
       \<and> stored (snd (checkLoginCredentials pm gt now1 now2 w e pw)) e = Some u
       \<and> new_calls w (snd (checkLoginCredentials pm gt now1 now2 w e pw)) =
           [GetUserByEmail e, PasswordMatched pw (password u), GenerateToken (email u) (user_id u)]"
  using assms
  by (simp add: checkLoginCredentials_passed [OF assms(1) evaluateLockout_below [OF assms(2)]]
      new_calls_def stored_def)

theorem success_keeps_counter_witness:
  "stored (example_world (alice\<lparr>attempt := 3\<rparr>)) ''alice@example.com'' = Some (alice\<lparr>attempt := 3\<rparr>)
   \<and> attempt (alice\<lparr>attempt := 3\<rparr>) \<le> threshold
   \<and> example_matcher ''secret'' (password (alice\<lparr>attempt := 3\<rparr>))
   \<and> map_option attempt (stored (snd (checkLoginCredentials example_matcher example_token 5000 5001
        (example_world (alice\<lparr>attempt := 3\<rparr>)) ''alice@example.com'' ''secret'')) ''alice@example.com'')
      = Some 3"
proof -
  have h: "stored (example_world (alice\<lparr>attempt := 3\<rparr>)) ''alice@example.com'' = Some (alice\<lparr>attempt := 3\<rparr>)"
    "attempt (alice\<lparr>attempt := 3\<rparr>) \<le> threshold"
    "example_matcher ''secret'' (password (alice\<lparr>attempt := 3\<rparr>))"
    by (simp_all add: stored_def example_world_def alice_def bob_def threshold_def example_matcher_def)
  from success_keeps_counter [where pm = example_matcher and pw = "''secret''" and gt = example_token
      and ?now1.0 = 5000 and ?now2.0 = 5001, OF h] h
  show ?thesis by simp
qed

text \<open>
  Claim C3. For a user whose attempt counter is above the threshold (5) while the clock is
  strictly before \<open>updatedOn + window\<close>, \<open>checkLoginCredentials\<close> throws the
  lockout error; the only call of the run is the lookup, so the password matcher is not
  invoked; the documents of the repository, and with them the attempt counter and
  \<open>updatedOn\<close> of the user, are unchanged.
\<close>

theorem locked_out_rejects:
  assumes "stored w e = Some u" and "updatedOn u = Some t"
    and "threshold < attempt u" and "now1 < t + window"
  shows "fst (checkLoginCredentials pm gt now1 now2 w e pw) = Inl (Forbidden locked_message)
       \<and> new_calls w (snd (checkLoginCredentials pm gt now1 now2 w e pw)) = [GetUserByEmail e]
       \<and> (\<forall>p h. PasswordMatched p h \<notin> set (new_calls w (snd (checkLoginCredentials pm gt now1 now2 w e pw))))
       \<and> docs (snd (checkLoginCredentials pm gt now1 now2 w e pw)) = docs w
       \<and> stored (snd (checkLoginCredentials pm gt now1 now2 w e pw)) e = Some u"
proof -
  have "checkLoginCredentials pm gt now1 now2 w e pw =
          (Inl (Forbidden locked_message), w\<lparr>calls := calls w @ [GetUserByEmail e]\<rparr>)"
    using assms
    by (simp add: checkLoginCredentials_def getUserByEmail_def evaluateLockout_locked stored_def)
  then show ?thesis
    using assms(1) by (simp add: new_calls_def stored_def)
qed

theorem locked_out_rejects_witness:
  "stored (example_world alice) ''alice@example.com'' = Some alice
   \<and> updatedOn alice = Some 0 \<and> threshold < attempt alice \<and> (5000 :: int) < 0 + window
   \<and> fst (checkLoginCredentials example_matcher example_token 5000 5001 (example_world alice)
            ''alice@example.com'' ''secret'') = Inl (Forbidden locked_message)
   \<and> stored (snd (checkLoginCredentials example_matcher example_token 5000 5001 (example_world alice)
            ''alice@example.com'' ''secret'')) ''alice@example.com'' = Some alice"
proof -
  have h: "stored (example_world alice) ''alice@example.com'' = Some alice"
    "updatedOn alice = Some 0" "threshold < attempt alice" "(5000 :: int) < 0 + window"
    by (simp_all add: stored_def example_world_def alice_def bob_def threshold_def window_def)
  from locked_out_rejects [OF h, of example_matcher example_token 5001 "''secret''"] h
  show ?thesis by simp
qed

text \<open>
  When the clock is strictly after \<open>updatedOn + window\<close>, the counter of a user above the
  threshold is reset before the password check: the stored counter ends at 0 after a
  matching password and at 1 after a wrong one.
\<close>

lemma expired_lock_resets:
  assumes "stored w e = Some u" and "updatedOn u = Some t"
    and "threshold < attempt u" and "t + window < now1"
  shows "take 3 (new_calls w (snd (checkLoginCredentials pm gt now1 now2 w e pw))) =
           [GetUserByEmail e, ResetAttempt e, PasswordMatched pw (password u)]
       \<and> map_option attempt (stored (snd (checkLoginCredentials pm gt now1 now2 w e pw)) e) =
           Some (if pm pw (password u) then 0 else 1)"
  using assms(1)
  by (simp add: checkLoginCredentials_passed [OF assms(1) evaluateLockout_expired [OF assms(2,3,4)]]
      new_calls_def stored_resetAttempt stored_loginAttempt stored_calls_update calls_resetAttempt
      calls_loginAttempt)

text \<open>
  Claim C4. With the counter above the threshold and the clock at or after
  \<open>updatedOn + window\<close>, equality included, the counter is claimed to be reset to 0
  before the password check. At equality the code takes neither branch of the lockout
  evaluation: \<open>resetAttempt\<close> is not called, nothing is thrown, and the stored counter
  stays above the threshold (unchanged after a matching password, one more after a wrong
  one).
\<close>

theorem boundary_not_reset:
  assumes "stored w e = Some u" and "updatedOn u = Some t"
    and "threshold < attempt u" and "now1 = t + window"
  shows "(\<forall>x. ResetAttempt x \<notin> set (new_calls w (snd (checkLoginCredentials pm gt now1 now2 w e pw))))
       \<and> (\<forall>err. fst (checkLoginCredentials pm gt now1 now2 w e pw) \<noteq> Inl err)
       \<and> map_option attempt (stored (snd (checkLoginCredentials pm gt now1 now2 w e pw)) e) =
           Some (if pm pw (password u) then attempt u else attempt u + 1)"
  using assms(1)
  by (simp add: checkLoginCredentials_passed [OF assms(1) evaluateLockout_boundary [OF assms(2,4)]]
      new_calls_def stored_loginAttempt stored_calls_update calls_loginAttempt)

theorem boundary_not_reset_witness:
  "stored (example_world alice) ''alice@example.com'' = Some alice
   \<and> updatedOn alice = Some 0 \<and> threshold < attempt alice \<and> (10000 :: int) = 0 + window
   \<and> fst (checkLoginCredentials example_matcher example_token 10000 10001 (example_world alice)
        ''alice@example.com'' ''secret'') =
      Inr (Some \<lparr>session_email = ''alice@example.com'', session_name = ''Alice'',
                  session_user_id = ''u1'', session_token = ''token-u1''\<rparr>)
   \<and> map_option attempt (stored (snd (checkLoginCredentials example_matcher example_token 10000 10001
        (example_world alice) ''alice@example.com'' ''secret'')) ''alice@example.com'') = Some 6"
proof -
  have h: "stored (example_world alice) ''alice@example.com'' = Some alice"
    "updatedOn alice = Some 0" "threshold < attempt alice" "(10000 :: int) = 0 + window"
    by (simp_all add: stored_def example_world_def alice_def bob_def threshold_def window_def)
  have m: "example_matcher ''secret'' (password alice)"
    by (simp add: example_matcher_def alice_def)
  have s: "fst (checkLoginCredentials example_matcher example_token 10000 10001 (example_world alice)
        ''alice@example.com'' ''secret'') =
      Inr (Some \<lparr>session_email = ''alice@example.com'', session_name = ''Alice'',
                  session_user_id = ''u1'', session_token = ''token-u1''\<rparr>)"
    by (simp add: checkLoginCredentials_def getUserByEmail_def evaluateLockout_def example_world_def
        alice_def bob_def threshold_def window_def example_matcher_def example_token_def)
  from boundary_not_reset [where pm = example_matcher and pw = "''secret''" and gt = example_token
      and ?now2.0 = 10001, OF h] h m s
  show ?thesis by (simp add: alice_def)
qed

text \<open>
  Claim C5 as stated: for an existing user who is not in the locked window and whose
  password does not match, the counter that is stored is the old counter plus one. It
  fails when the lock has expired: with the counter at 6, \<open>updatedOn\<close> at 0 and the
  clock at 20000, past the window, a wrong password returns null and leaves the counter
  at 1, not at 7.
\<close>

theorem wrong_password_counts_counterexample:
  "stored (example_world alice) ''alice@example.com'' = Some alice
   \<and> \<not> example_matcher ''guess'' (password alice)
   \<and> updatedOn alice = Some 0
   \<and> \<not> (20000 :: int) < 0 + window
   \<and> fst (checkLoginCredentials example_matcher example_token 20000 20001 (example_world alice)
        ''alice@example.com'' ''guess'') = Inr None
   \<and> map_option attempt (stored (snd (checkLoginCredentials example_matcher example_token 20000 20001
        (example_world alice) ''alice@example.com'' ''guess'')) ''alice@example.com'') = Some 1
   \<and> map_option attempt (stored (snd (checkLoginCredentials example_matcher example_token 20000 20001
        (example_world alice) ''alice@example.com'' ''guess'')) ''alice@example.com'')
      \<noteq> Some (attempt alice + 1)"
  by (simp add: checkLoginCredentials_def getUserByEmail_def evaluateLockout_def resetAttempt_def
      loginAttempt_def stored_def example_world_def alice_def bob_def threshold_def window_def
      example_matcher_def)

text \<open>
  Claim C5, amended. For an existing user who is not in the locked window and whose
  password does not match, \<open>checkLoginCredentials\<close> returns null and the stored record
  gets \<open>updatedOn = now\<close> (the clock read by \<open>loginAttempt\<close>) and the counter that was
  fetched again plus one: the old counter plus one, except when the counter is above the
  threshold and the clock is strictly after \<open>updatedOn + window\<close>, where the expired-lock
  branch has just reset the counter and 1 is stored.
\<close>

theorem wrong_password_counts:
  assumes "stored w e = Some u" and "\<not> pm pw (password u)"
    and "\<forall>t. updatedOn u = Some t \<and> threshold < attempt u \<longrightarrow> t + window \<le> now1"
  shows "fst (checkLoginCredentials pm gt now1 now2 w e pw) = Inr None
       \<and> stored (snd (checkLoginCredentials pm gt now1 now2 w e pw)) e =
           Some (u\<lparr>updatedOn := Some now2,
                   attempt := (if \<exists>t. updatedOn u = Some t \<and> threshold < attempt u \<and> t + window < now1
                               then 0 else attempt u) + 1\<rparr>)"
proof (cases "\<exists>t. updatedOn u = Some t \<and> threshold < attempt u \<and> t + window < now1")
  case True
  then obtain t where t: "updatedOn u = Some t" "threshold < attempt u" "t + window < now1"
    by blast
  show ?thesis
    using assms(1,2) True
    by (simp add: checkLoginCredentials_passed [OF assms(1) evaluateLockout_expired [OF t]]
        stored_resetAttempt stored_loginAttempt stored_calls_update)
next
  case False
  have "evaluateLockout now1 (Some u) e (w\<lparr>calls := calls w @ [GetUserByEmail e]\<rparr>)
          = Inr (w\<lparr>calls := calls w @ [GetUserByEmail e]\<rparr>)"
    using False assms(3) by (auto simp add: evaluateLockout_def split: option.splits)
  then have "checkLoginCredentials pm gt now1 now2 w e pw =
      (Inr None, loginAttempt now2
         (w\<lparr>calls := calls w @ [GetUserByEmail e, PasswordMatched pw (password u), GetUserByEmail e]\<rparr>)
         e (attempt u + 1))"
    using assms(1,2)
    by (simp add: checkLoginCredentials_passed [OF assms(1)] stored_calls_update)
  then show ?thesis
    using assms(1) False
    by (simp only: fst_conv snd_conv stored_loginAttempt stored_calls_update if_False
        option.map refl simp_thms)
qed

theorem wrong_password_counts_witness:
  "stored (example_world (alice\<lparr>attempt := 2\<rparr>)) ''alice@example.com'' = Some (alice\<lparr>attempt := 2\<rparr>)
   \<and> \<not> example_matcher ''guess'' (password (alice\<lparr>attempt := 2\<rparr>))
   \<and> \<not> threshold < attempt (alice\<lparr>attempt := 2\<rparr>)
   \<and> fst (checkLoginCredentials example_matcher example_token 5000 5001
        (example_world (alice\<lparr>attempt := 2\<rparr>)) ''alice@example.com'' ''guess'') = Inr None
   \<and> stored (snd (checkLoginCredentials example_matcher example_token 5000 5001
        (example_world (alice\<lparr>attempt := 2\<rparr>)) ''alice@example.com'' ''guess'')) ''alice@example.com''
      = Some (alice\<lparr>updatedOn := Some 5001, attempt := 3\<rparr>)"
proof -
  have h: "stored (example_world (alice\<lparr>attempt := 2\<rparr>)) ''alice@example.com'' = Some (alice\<lparr>attempt := 2\<rparr>)"
    "\<not> example_matcher ''guess'' (password (alice\<lparr>attempt := 2\<rparr>))"
    "\<forall>t. updatedOn (alice\<lparr>attempt := 2\<rparr>) = Some t \<and> threshold < attempt (alice\<lparr>attempt := 2\<rparr>)
         \<longrightarrow> t + window \<le> 5000"
    by (simp_all add: stored_def example_world_def alice_def bob_def threshold_def example_matcher_def)
  have n: "\<not> (\<exists>t. updatedOn (alice\<lparr>attempt := 2\<rparr>) = Some t \<and> threshold < attempt (alice\<lparr>attempt := 2\<rparr>)
         \<and> t + window < 5000)"
    by (simp add: alice_def threshold_def)
  have b: "\<not> threshold < attempt (alice\<lparr>attempt := 2\<rparr>)"
    by (simp add: threshold_def)
  from wrong_password_counts [where pm = example_matcher and pw = "''guess''" and gt = example_token
      and ?now1.0 = 5000 and ?now2.0 = 5001, OF h] h(1,2) n b
  show ?thesis by simp
qed

text \<open>
  Claim C6 as stated: \<open>updatedOn\<close> is updated exactly when the attempt counter is
  mutated. It fails on a login with the matching password after the window has ended:
  the counter goes from 6 to 0 and \<open>updatedOn\<close> stays as it was.
\<close>

theorem updatedOn_iff_attempt_counterexample:
  "\<not> ((map_option updatedOn (stored (snd (checkLoginCredentials example_matcher example_token 20000 20001
            (example_world alice) ''alice@example.com'' ''secret'')) ''alice@example.com'')
          \<noteq> map_option updatedOn (stored (example_world alice) ''alice@example.com''))
       = (map_option attempt (stored (snd (checkLoginCredentials example_matcher example_token 20000 20001
            (example_world alice) ''alice@example.com'' ''secret'')) ''alice@example.com'')
          \<noteq> map_option attempt (stored (example_world alice) ''alice@example.com'')))"
  by (simp add: checkLoginCredentials_def getUserByEmail_def evaluateLockout_def resetAttempt_def
      stored_def example_world_def alice_def bob_def threshold_def window_def example_matcher_def)

text \<open>
  Claim C6, amended. After any run of \<open>checkLoginCredentials\<close> on an existing user,
  the counter is at least what it was, unless the run has reset it to 0 (then it is 0 or
  1). \<open>updatedOn\<close> is written exactly when the run increments the counter, that is
  when it calls \<open>loginAttempt\<close>: then \<open>updatedOn\<close> is the clock read by
  \<open>loginAttempt\<close> and the counter is the old one plus one (or 1 after a reset);
  otherwise \<open>updatedOn\<close> is what it was and the counter is unchanged or reset to 0.
  So a changed \<open>updatedOn\<close> means a changed counter, a counter changed to anything
  but 0 means \<open>updatedOn\<close> was written, and a counter changed to 0 (the reset) leaves
  \<open>updatedOn\<close> as it was.
\<close>

theorem attempt_grows_or_resets:
  assumes "stored w e = Some u"
  shows "\<exists>u'. stored (snd (checkLoginCredentials pm gt now1 now2 w e pw)) e = Some u'
     \<and> (attempt u \<le> attempt u'
        \<or> ResetAttempt e \<in> set (new_calls w (snd (checkLoginCredentials pm gt now1 now2 w e pw)))
          \<and> attempt u' \<le> 1)
     \<and> (updatedOn u' \<noteq> updatedOn u \<longrightarrow>
          attempt u' \<noteq> attempt u \<and> updatedOn u' = Some now2
          \<and> LoginAttempt e (attempt u') \<in> set (new_calls w (snd (checkLoginCredentials pm gt now1 now2 w e pw))))
     \<and> (attempt u' \<noteq> attempt u \<and> attempt u' \<noteq> 0 \<longrightarrow>
          updatedOn u' = Some now2
          \<and> LoginAttempt e (attempt u') \<in> set (new_calls w (snd (checkLoginCredentials pm gt now1 now2 w e pw))))
     \<and> (attempt u' \<noteq> attempt u \<and> attempt u' = 0 \<longrightarrow>
          updatedOn u' = updatedOn u
          \<and> ResetAttempt e \<in> set (new_calls w (snd (checkLoginCredentials pm gt now1 now2 w e pw))))
     \<and> ((\<exists>a. LoginAttempt e a \<in> set (new_calls w (snd (checkLoginCredentials pm gt now1 now2 w e pw)))) \<longrightarrow>
          updatedOn u' = Some now2
          \<and> LoginAttempt e (attempt u') \<in> set (new_calls w (snd (checkLoginCredentials pm gt now1 now2 w e pw)))
          \<and> (attempt u' = attempt u + 1
             \<or> ResetAttempt e \<in> set (new_calls w (snd (checkLoginCredentials pm gt now1 now2 w e pw)))
               \<and> attempt u' = 1))
     \<and> (\<not> (\<exists>a. LoginAttempt e a \<in> set (new_calls w (snd (checkLoginCredentials pm gt now1 now2 w e pw)))) \<longrightarrow>
          updatedOn u' = updatedOn u
          \<and> (attempt u' = attempt u
             \<or> ResetAttempt e \<in> set (new_calls w (snd (checkLoginCredentials pm gt now1 now2 w e pw)))
               \<and> attempt u' = 0))"
proof -
  let ?w1 = "w\<lparr>calls := calls w @ [GetUserByEmail e]\<rparr>"
  consider (locked) "evaluateLockout now1 (Some u) e ?w1 = Inl (Forbidden locked_message)"
    | (through) "evaluateLockout now1 (Some u) e ?w1 = Inr ?w1"
    | (expired) "evaluateLockout now1 (Some u) e ?w1 = Inr (resetAttempt ?w1 e)" "threshold < attempt u"
    using evaluateLockout_cases [of now1 u e ?w1] by blast
  then show ?thesis
  proof cases
    case locked
    show ?thesis
      using assms
      by (simp add: checkLoginCredentials_thrown [OF assms locked] stored_calls_update new_calls_def)
  next
    case through
    show ?thesis
    proof (cases "pm pw (password u)")
      case True
      then show ?thesis
        using assms
        by (simp add: checkLoginCredentials_passed [OF assms through] stored_calls_update
            new_calls_def)
    next
      case False
      then show ?thesis
        using assms
        by (simp add: checkLoginCredentials_passed [OF assms through] stored_calls_update
            stored_loginAttempt calls_loginAttempt new_calls_def)
    qed
  next
    case expired
    have n: "attempt u \<noteq> 0" "attempt u \<noteq> Suc 0"
      using expired(2) by (simp_all add: threshold_def)
    show ?thesis
    proof (cases "pm pw (password u)")
      case True
      then show ?thesis
        using assms n
        by (simp add: checkLoginCredentials_passed [OF assms expired(1)] stored_calls_update
            stored_resetAttempt calls_resetAttempt new_calls_def)
    next
      case False
      then show ?thesis
        using assms n
        by (simp add: checkLoginCredentials_passed [OF assms expired(1)] stored_calls_update
            stored_loginAttempt stored_resetAttempt calls_loginAttempt calls_resetAttempt
            new_calls_def)
    qed
  qed
qed

theorem attempt_grows_or_resets_witness:
  "stored (example_world alice) ''alice@example.com'' = Some alice
   \<and> stored (snd (checkLoginCredentials example_matcher example_token 20000 20001
        (example_world alice) ''alice@example.com'' ''guess'')) ''alice@example.com''
      = Some (alice\<lparr>updatedOn := Some 20001, attempt := 1\<rparr>)
   \<and> updatedOn (alice\<lparr>updatedOn := Some 20001, attempt := 1\<rparr>) \<noteq> updatedOn alice
   \<and> attempt (alice\<lparr>updatedOn := Some 20001, attempt := 1\<rparr>) \<noteq> attempt alice
   \<and> attempt (alice\<lparr>updatedOn := Some 20001, attempt := 1\<rparr>) \<noteq> 0
   \<and> LoginAttempt ''alice@example.com'' 1 \<in> set (new_calls (example_world alice)
        (snd (checkLoginCredentials example_matcher example_token 20000 20001
        (example_world alice) ''alice@example.com'' ''guess'')))
   \<and> ResetAttempt ''alice@example.com'' \<in> set (new_calls (example_world alice)
        (snd (checkLoginCredentials example_matcher example_token 20000 20001
        (example_world alice) ''alice@example.com'' ''guess'')))
   \<and> stored (snd (checkLoginCredentials example_matcher example_token 20000 20001
        (example_world alice) ''alice@example.com'' ''secret'')) ''alice@example.com''
      = Some (alice\<lparr>attempt := 0\<rparr>)
   \<and> attempt (alice\<lparr>attempt := 0\<rparr>) \<noteq> attempt alice
   \<and> updatedOn (alice\<lparr>attempt := 0\<rparr>) = updatedOn alice
   \<and> \<not> (\<exists>a. LoginAttempt ''alice@example.com'' a \<in> set (new_calls (example_world alice)
        (snd (checkLoginCredentials example_matcher example_token 20000 20001
        (example_world alice) ''alice@example.com'' ''secret''))))
   \<and> ResetAttempt ''alice@example.com'' \<in> set (new_calls (example_world alice)
        (snd (checkLoginCredentials example_matcher example_token 20000 20001
        (example_world alice) ''alice@example.com'' ''secret'')))"
proof -
  have h: "stored (example_world alice) ''alice@example.com'' = Some alice"
    by (simp add: stored_def example_world_def alice_def bob_def)
  have r: "stored (snd (checkLoginCredentials example_matcher example_token 20000 20001
        (example_world alice) ''alice@example.com'' ''guess'')) ''alice@example.com''
      = Some (alice\<lparr>updatedOn := Some 20001, attempt := 1\<rparr>)"
    by (simp add: checkLoginCredentials_def getUserByEmail_def evaluateLockout_def resetAttempt_def
        loginAttempt_def stored_def example_world_def alice_def bob_def threshold_def window_def
        example_matcher_def)
  have r': "stored (snd (checkLoginCredentials example_matcher example_token 20000 20001
        (example_world alice) ''alice@example.com'' ''secret'')) ''alice@example.com''
      = Some (alice\<lparr>attempt := 0\<rparr>)"
    by (simp add: checkLoginCredentials_def getUserByEmail_def evaluateLockout_def resetAttempt_def
        stored_def example_world_def alice_def bob_def threshold_def window_def
        example_matcher_def)
  have d: "updatedOn (alice\<lparr>updatedOn := Some 20001, attempt := 1\<rparr>) \<noteq> updatedOn alice"
    "attempt (alice\<lparr>updatedOn := Some 20001, attempt := 1\<rparr>) \<noteq> attempt alice"
    "attempt (alice\<lparr>updatedOn := Some 20001, attempt := 1\<rparr>) \<noteq> 0"
    "attempt (alice\<lparr>updatedOn := Some 20001, attempt := 1\<rparr>) = 1"
    "\<not> attempt alice \<le> 1"
    "attempt (alice\<lparr>attempt := 0\<rparr>) \<noteq> attempt alice"
    "attempt (alice\<lparr>attempt := 0\<rparr>) = 0"
    "updatedOn (alice\<lparr>attempt := 0\<rparr>) = updatedOn alice"
    "updatedOn (alice\<lparr>attempt := 0\<rparr>) \<noteq> Some 20001"
    by (simp_all add: alice_def)
  have g: "LoginAttempt ''alice@example.com'' 1 \<in> set (new_calls (example_world alice)
        (snd (checkLoginCredentials example_matcher example_token 20000 20001
        (example_world alice) ''alice@example.com'' ''guess'')))
     \<and> ResetAttempt ''alice@example.com'' \<in> set (new_calls (example_world alice)
        (snd (checkLoginCredentials example_matcher example_token 20000 20001
        (example_world alice) ''alice@example.com'' ''guess'')))"
    using attempt_grows_or_resets [where pm = example_matcher and pw = "''guess''"
        and gt = example_token and ?now1.0 = 20000 and ?now2.0 = 20001, OF h] r d
    by auto
  have k: "\<not> (\<exists>a. LoginAttempt ''alice@example.com'' a \<in> set (new_calls (example_world alice)
        (snd (checkLoginCredentials example_matcher example_token 20000 20001
        (example_world alice) ''alice@example.com'' ''secret''))))
     \<and> ResetAttempt ''alice@example.com'' \<in> set (new_calls (example_world alice)
        (snd (checkLoginCredentials example_matcher example_token 20000 20001
        (example_world alice) ''alice@example.com'' ''secret'')))"
    using attempt_grows_or_resets [where pm = example_matcher and pw = "''secret''"
        and gt = example_token and ?now1.0 = 20000 and ?now2.0 = 20001, OF h] r' d
    by auto
  from h r r' d(1,2,3,6,8) g k show ?thesis by blast
qed

text \<open>
  Claim C10. For a user whose \<open>updatedOn\<close> is unset, however large the counter,
  \<open>checkLoginCredentials\<close> throws nothing (no lockout error in particular), the
  password check follows the lookup directly, \<open>resetAttempt\<close> is never called, and the
  stored counter is the old one after a matching password and the old one plus one
  after a wrong one.
\<close>

theorem unset_updatedOn_skips_lockout:
  assumes "stored w e = Some u" and "updatedOn u = None"
  shows "(\<forall>err. fst (checkLoginCredentials pm gt now1 now2 w e pw) \<noteq> Inl err)
       \<and> take 2 (new_calls w (snd (checkLoginCredentials pm gt now1 now2 w e pw))) =
           [GetUserByEmail e, PasswordMatched pw (password u)]
       \<and> (\<forall>x. ResetAttempt x \<notin> set (new_calls w (snd (checkLoginCredentials pm gt now1 now2 w e pw))))
       \<and> map_option attempt (stored (snd (checkLoginCredentials pm gt now1 now2 w e pw)) e) =
           Some (if pm pw (password u) then attempt u else attempt u + 1)"
  using assms(1)
  by (simp add: checkLoginCredentials_passed [OF assms(1) evaluateLockout_unset [OF assms(2)]]
      new_calls_def stored_loginAttempt stored_calls_update calls_loginAttempt)

theorem unset_updatedOn_skips_lockout_witness:
  "stored (example_world (alice\<lparr>attempt := 99, updatedOn := None\<rparr>)) ''alice@example.com''
     = Some (alice\<lparr>attempt := 99, updatedOn := None\<rparr>)
   \<and> updatedOn (alice\<lparr>attempt := 99, updatedOn := None\<rparr>) = None
   \<and> take 2 (new_calls (example_world (alice\<lparr>attempt := 99, updatedOn := None\<rparr>))
        (snd (checkLoginCredentials example_matcher example_token 5000 5001
          (example_world (alice\<lparr>attempt := 99, updatedOn := None\<rparr>)) ''alice@example.com'' ''guess'')))
      = [GetUserByEmail ''alice@example.com'', PasswordMatched ''guess'' ''hash-of-secret'']
   \<and> map_option attempt (stored (snd (checkLoginCredentials example_matcher example_token 5000 5001
          (example_world (alice\<lparr>attempt := 99, updatedOn := None\<rparr>)) ''alice@example.com'' ''guess''))
        ''alice@example.com'') = Some 100"
proof -
  have h: "stored (example_world (alice\<lparr>attempt := 99, updatedOn := None\<rparr>)) ''alice@example.com''
       = Some (alice\<lparr>attempt := 99, updatedOn := None\<rparr>)"
    "updatedOn (alice\<lparr>attempt := 99, updatedOn := None\<rparr>) = None"
    by (simp_all add: stored_def example_world_def alice_def bob_def)
  have m: "\<not> example_matcher ''guess'' (password (alice\<lparr>attempt := 99, updatedOn := None\<rparr>))"
    "password (alice\<lparr>attempt := 99, updatedOn := None\<rparr>) = ''hash-of-secret''"
    by (simp_all add: example_matcher_def alice_def)
  from unset_updatedOn_skips_lockout [where pm = example_matcher and pw = "''guess''"
      and gt = example_token and ?now1.0 = 5000 and ?now2.0 = 5001, OF h] h m
  show ?thesis by simp
qed

section \<open>The users controller\<close>

text \<open>The whitelists: what the three validators and the values computed from a query can be.\<close>

lemma isValidSortField_valid: "isValidSortField f = ''email'' \<or> isValidSortField f = ''name''"
  by (auto simp add: isValidSortField_def split: option.splits)

lemma isValidSortOrder_valid: "isValidSortOrder f = ''asc'' \<or> isValidSortOrder f = ''desc''"
  by (auto simp add: isValidSortOrder_def split: option.splits)

lemma isValidSearchField_valid:
  "isValidSearchField f = None \<or> isValidSearchField f = Some ''email'' \<or> isValidSearchField f = Some ''name''"
  by (auto simp add: isValidSearchField_def split: option.splits)

lemma sortField_valid: "sortField q = ''email'' \<or> sortField q = ''name''"
  using isValidSortField_valid by (simp add: sortField_def)

lemma sortOrder_valid: "sortOrder q = ''asc'' \<or> sortOrder q = ''desc''"
  using isValidSortOrder_valid by (simp add: sortOrder_def)

lemma searchField_valid:
  "searchField q = None \<or> searchField q = Some ''email'' \<or> searchField q = Some ''name''"
  using isValidSearchField_valid by (simp add: searchField_def)

text \<open>The comparator never meets a missing property, since the sort field is whitelisted.\<close>

lemma prop_of_sortField: "prop_of u (sortField q) \<noteq> None"
  using sortField_valid [of q] by (auto simp add: prop_of_def)

lemma no_missing_property: "\<not> list_ex (\<lambda>u. prop_of u (sortField q) = None) us"
  by (simp add: list_ex_iff prop_of_sortField)

text \<open>
  The sort keeps the users and their number, and its result is ordered by the comparator
  whenever the comparator is total and transitive.
\<close>

lemma length_insert_by: "length (insert_by cmp x xs) = Suc (length xs)"
  by (induction xs) simp_all

lemma length_sort_by: "length (sort_by cmp xs) = length xs"
  by (induction xs) (simp_all add: sort_by_def length_insert_by)

lemma set_insert_by: "set (insert_by cmp x xs) = insert x (set xs)"
  by (induction xs) auto

lemma set_sort_by: "set (sort_by cmp xs) = set xs"
  by (induction xs) (simp_all add: sort_by_def set_insert_by)

lemma sorted_insert_by:
  assumes total: "\<And>a b. cmp a b \<le> 0 \<or> cmp b a \<le> 0"
    and trans: "\<And>a b c. cmp a b \<le> 0 \<Longrightarrow> cmp b c \<le> 0 \<Longrightarrow> cmp a c \<le> 0"
  shows "sorted_wrt (\<lambda>a b. cmp a b \<le> 0) xs \<Longrightarrow> sorted_wrt (\<lambda>a b. cmp a b \<le> 0) (insert_by cmp x xs)"
proof (induction xs)
  case Nil
  show ?case by simp
next
  case (Cons y ys)
  show ?case
  proof (cases "cmp x y \<le> 0")
    case True
    with Cons.prems trans show ?thesis by auto
  next
    case False
    with total [of x y] have "cmp y x \<le> 0" by simp
    with False Cons show ?thesis by (auto simp add: set_insert_by)
  qed
qed

lemma sorted_sort_by:
  assumes "\<And>a b. cmp a b \<le> 0 \<or> cmp b a \<le> 0"
    and "\<And>a b c. cmp a b \<le> 0 \<Longrightarrow> cmp b c \<le> 0 \<Longrightarrow> cmp a c \<le> 0"
  shows "sorted_wrt (\<lambda>a b. cmp a b \<le> 0) (sort_by cmp xs)"
proof (induction xs)
  case Nil
  show ?case by (simp add: sort_by_def)
next
  case (Cons x xs)
  then show ?case
    using sorted_insert_by [of cmp "sort_by cmp xs" x, OF assms]
    by (simp add: sort_by_def)
qed

lemma slice_2_4:
  assumes "length xs = 5"
  shows "slice xs 2 4 = [xs ! 2, xs ! 3]"
proof -
  from assms obtain a b c d e where "xs = [a, b, c, d, e]"
    by (auto simp add: length_Suc_conv eval_nat_numeral)
  then show ?thesis by (simp add: slice_def eval_nat_numeral)
qed

lemma slice_0_0: "slice xs 0 0 = []"
  by (simp add: slice_def)

lemma parseInt_2: "parseInt (Some ''2'') = Some 2"
  by (simp add: parseInt_def isWhiteSpace_def isDigitOf_def digitValue_def digitsValue_def
      toDouble_def)

lemma parseInt_absent: "parseInt None = None"
  by (simp add: parseInt_def)

text \<open>\<open>getUsers\<close> always answers, with these values.\<close>

lemma getUsers_returns:
  "getUsers localeCompare service q =
     (let filteredUsers = service (pageNumber q) (pageSize q) (searchField q) (searchKey q)
                            (sortField q) (sortOrder q);
          sortedUsers = sort_by (compareUsers localeCompare (sortOrder q) (sortField q)) filteredUsers;
          startIndex = (toNumber (pageNumber q) - 1) * toNumber (pageSize q);
          endIndex = startIndex + toNumber (pageSize q)
      in Inr \<lparr>page_number = pageNumber q, page_size = pageSize q, count = length filteredUsers,
               total_pages = ceil_div (length filteredUsers) (toNumber (pageSize q)),
               has_previous_page = (toNumber (pageNumber q) > 1),
               has_next_page = (endIndex < int (length filteredUsers)),
               users = slice sortedUsers startIndex endIndex\<rparr>)"
  by (simp add: getUsers_def Let_def no_missing_property length_sort_by)

section \<open>Properties of the users controller\<close>

text \<open>
  Claim C7. For a request with \<open>page_size=2\<close> and \<open>page_number=2\<close> for which the service
  returns five users, \<open>getUsers\<close> answers with exactly the users at indices 2 and 3 of
  the sorted list, \<open>has_previous_page\<close> and \<open>has_next_page\<close> true, \<open>total_pages\<close> 3
  and \<open>count\<close> 5, whatever the search and the sort of the request are.
\<close>

theorem second_page_of_five:
  assumes "q_page_number q = Some ''2''" and "q_page_size q = Some ''2''"
    and "length (service (Some 2) (Some 2) (searchField q) (searchKey q) (sortField q) (sortOrder q)) = 5"
  shows "getUsers localeCompare service q =
     Inr \<lparr>page_number = Some 2, page_size = Some 2, count = 5, total_pages = Num 3,
           has_previous_page = True, has_next_page = True,
           users = [sort_by (compareUsers localeCompare (sortOrder q) (sortField q))
                      (service (Some 2) (Some 2) (searchField q) (searchKey q) (sortField q) (sortOrder q)) ! 2,
                    sort_by (compareUsers localeCompare (sortOrder q) (sortField q))
                      (service (Some 2) (Some 2) (searchField q) (searchKey q) (sortField q) (sortOrder q)) ! 3]\<rparr>"
proof -
  have p: "pageNumber q = Some 2" "pageSize q = Some 2"
    using assms(1,2) by (simp_all add: pageNumber_def pageSize_def parseInt_2 or_null_def)
  show ?thesis
    using assms(3)
    by (simp add: getUsers_returns Let_def p toNumber_def ceil_div_def slice_2_4 length_sort_by)
qed

theorem second_page_of_five_witness:
  "q_page_number (example_query (Some ''2'') (Some ''2'')) = Some ''2''
   \<and> q_page_size (example_query (Some ''2'') (Some ''2'')) = Some ''2''
   \<and> length (example_service (Some 2) (Some 2) None None ''name'' ''asc'') = 5
   \<and> sort_by (compareUsers example_compare ''asc'' ''name'') five_users =
       [listed ''1'' ''ann'', listed ''2'' ''bea'', listed ''3'' ''cid'', listed ''4'' ''dan'',
        listed ''5'' ''eve'']
   \<and> getUsers example_compare example_service (example_query (Some ''2'') (Some ''2'')) =
       Inr \<lparr>page_number = Some 2, page_size = Some 2, count = 5, total_pages = Num 3,
             has_previous_page = True, has_next_page = True,
             users = [listed ''3'' ''cid'', listed ''4'' ''dan'']\<rparr>"
proof -
  have f: "searchField (example_query (Some ''2'') (Some ''2'')) = None"
    "searchKey (example_query (Some ''2'') (Some ''2'')) = None"
    "sortField (example_query (Some ''2'') (Some ''2'')) = ''name''"
    "sortOrder (example_query (Some ''2'') (Some ''2'')) = ''asc''"
    by (simp_all add: example_query_def searchField_def searchKey_def sortField_def sortOrder_def
        truthy_def isValidSortField_def isValidSortOrder_def)
  have h: "q_page_number (example_query (Some ''2'') (Some ''2'')) = Some ''2''"
    "q_page_size (example_query (Some ''2'') (Some ''2'')) = Some ''2''"
    "length (example_service (Some 2) (Some 2)
       (searchField (example_query (Some ''2'') (Some ''2'')))
       (searchKey (example_query (Some ''2'') (Some ''2'')))
       (sortField (example_query (Some ''2'') (Some ''2'')))
       (sortOrder (example_query (Some ''2'') (Some ''2'')))) = 5"
    by (simp_all add: example_query_def example_service_def five_users_def)
  have s: "sort_by (compareUsers example_compare ''asc'' ''name'') five_users =
       [listed ''1'' ''ann'', listed ''2'' ''bea'', listed ''3'' ''cid'', listed ''4'' ''dan'',
        listed ''5'' ''eve'']"
    by (simp add: sort_by_def compareUsers_def prop_of_def five_users_def listed_def)
  from second_page_of_five [where localeCompare = example_compare and service = example_service, OF h]
    h(1,2) s
  show ?thesis by (simp add: f example_service_def five_users_def)
qed

text \<open>
  Claim C8. When \<open>page_number\<close> and \<open>page_size\<close> are absent, the users of the answer
  are claimed to be the entire filtered, sorted list. The code turns both into \<open>null\<close>
  and still slices: the start index is \<open>(null - 1) * null\<close> and the end index is the
  same plus \<open>null\<close>, both zero, so the users of the answer are the empty list whatever
  the service returns, and \<open>total_pages\<close> is \<open>Infinity\<close> or \<open>NaN\<close>.
\<close>

theorem absent_page_gives_empty_page:
  assumes "q_page_number q = None" and "q_page_size q = None"
  shows "getUsers localeCompare service q =
     Inr \<lparr>page_number = None, page_size = None,
           count = length (service None None (searchField q) (searchKey q) (sortField q) (sortOrder q)),
           total_pages =
             (if service None None (searchField q) (searchKey q) (sortField q) (sortOrder q) = []
              then NaN else Infinity),
           has_previous_page = False,
           has_next_page =
             (service None None (searchField q) (searchKey q) (sortField q) (sortOrder q) \<noteq> []),
           users = []\<rparr>"
proof -
  have p: "pageNumber q = None" "pageSize q = None"
    using assms by (simp_all add: pageNumber_def pageSize_def parseInt_absent or_null_def)
  show ?thesis
    by (simp add: getUsers_returns Let_def p toNumber_def ceil_div_def slice_0_0)
qed

theorem absent_page_gives_empty_page_witness:
  "q_page_number (example_query None None) = None
   \<and> q_page_size (example_query None None) = None
   \<and> example_service None None None None ''name'' ''asc'' = five_users
   \<and> sort_by (compareUsers example_compare ''asc'' ''name'') five_users \<noteq> []
   \<and> getUsers example_compare example_service (example_query None None) =
       Inr \<lparr>page_number = None, page_size = None, count = 5, total_pages = Infinity,
             has_previous_page = False, has_next_page = True, users = []\<rparr>"
proof -
  have h: "q_page_number (example_query None None) = None"
    "q_page_size (example_query None None) = None"
    by (simp_all add: example_query_def)
  have n: "sort_by (compareUsers example_compare ''asc'' ''name'') five_users \<noteq> []"
    using length_sort_by [of "compareUsers example_compare ''asc'' ''name''" five_users]
    by (auto simp add: five_users_def)
  from absent_page_gives_empty_page [where localeCompare = example_compare
      and service = example_service, OF h] h n
  show ?thesis by (simp add: example_service_def five_users_def)
qed

text \<open>
  Claim C9. For every query: the sort field that \<open>getUsers\<close> uses is \<open>email\<close> or
  \<open>name\<close>, and \<open>email\<close> when the sort is absent or names a field outside the
  whitelist; the sort order is \<open>asc\<close> or \<open>desc\<close>, and \<open>asc\<close> when absent or outside
  the whitelist; a search field outside the whitelist gives the null search field. The
  three validators return a whitelisted input as it is and their default otherwise.
\<close>

theorem whitelisted_sort_and_search:
  "(sortField q = ''email'' \<or> sortField q = ''name'')
   \<and> (sortOrder q = ''asc'' \<or> sortOrder q = ''desc'')
   \<and> (q_sort q = None \<longrightarrow> sortField q = ''email'' \<and> sortOrder q = ''asc'')
   \<and> (field \<noteq> Some ''email'' \<and> field \<noteq> Some ''name'' \<longrightarrow> isValidSortField field = ''email'')
   \<and> (field = Some ''email'' \<or> field = Some ''name'' \<longrightarrow> isValidSortField field = the field)
   \<and> (order \<noteq> Some ''asc'' \<and> order \<noteq> Some ''desc'' \<longrightarrow> isValidSortOrder order = ''asc'')
   \<and> (order = Some ''asc'' \<or> order = Some ''desc'' \<longrightarrow> isValidSortOrder order = the order)
   \<and> (sfield \<noteq> Some ''email'' \<and> sfield \<noteq> Some ''name'' \<longrightarrow> isValidSearchField sfield = None)
   \<and> (sfield = Some ''email'' \<or> sfield = Some ''name'' \<longrightarrow> isValidSearchField sfield = sfield)
   \<and> (\<forall>s. q_search q = Some s \<and> at_index (split CHR '':'' s) 0 \<noteq> Some ''email''
            \<and> at_index (split CHR '':'' s) 0 \<noteq> Some ''name'' \<longrightarrow> searchField q = None)
   \<and> (\<forall>s. q_sort q = Some s \<and> at_index (split CHR '':'' s) 0 \<noteq> Some ''email''
            \<and> at_index (split CHR '':'' s) 0 \<noteq> Some ''name'' \<longrightarrow> sortField q = ''email'')
   \<and> (\<forall>s. q_sort q = Some s \<and> at_index (split CHR '':'' s) 1 \<noteq> Some ''asc''
            \<and> at_index (split CHR '':'' s) 1 \<noteq> Some ''desc'' \<longrightarrow> sortOrder q = ''asc'')"
proof -
  have a: "q_sort q = None \<longrightarrow> sortField q = ''email'' \<and> sortOrder q = ''asc''"
    by (simp add: sortField_def sortOrder_def truthy_def)
  have b: "field \<noteq> Some ''email'' \<and> field \<noteq> Some ''name'' \<longrightarrow> isValidSortField field = ''email''"
    "field = Some ''email'' \<or> field = Some ''name'' \<longrightarrow> isValidSortField field = the field"
    by (auto simp add: isValidSortField_def split: option.splits)
  have c: "order \<noteq> Some ''asc'' \<and> order \<noteq> Some ''desc'' \<longrightarrow> isValidSortOrder order = ''asc''"
    "order = Some ''asc'' \<or> order = Some ''desc'' \<longrightarrow> isValidSortOrder order = the order"
    by (auto simp add: isValidSortOrder_def split: option.splits)
  have d: "sfield \<noteq> Some ''email'' \<and> sfield \<noteq> Some ''name'' \<longrightarrow> isValidSearchField sfield = None"
    "sfield = Some ''email'' \<or> sfield = Some ''name'' \<longrightarrow> isValidSearchField sfield = sfield"
    by (auto simp add: isValidSearchField_def split: option.splits)
  have e: "\<forall>s. q_search q = Some s \<and> at_index (split CHR '':'' s) 0 \<noteq> Some ''email''
            \<and> at_index (split CHR '':'' s) 0 \<noteq> Some ''name'' \<longrightarrow> searchField q = None"
    by (auto simp add: searchField_def isValidSearchField_def split: option.splits)
  have g: "\<forall>s. q_sort q = Some s \<and> at_index (split CHR '':'' s) 0 \<noteq> Some ''email''
            \<and> at_index (split CHR '':'' s) 0 \<noteq> Some ''name'' \<longrightarrow> sortField q = ''email''"
    by (auto simp add: sortField_def isValidSortField_def split: option.splits)
  have h: "\<forall>s. q_sort q = Some s \<and> at_index (split CHR '':'' s) 1 \<noteq> Some ''asc''
            \<and> at_index (split CHR '':'' s) 1 \<noteq> Some ''desc'' \<longrightarrow> sortOrder q = ''asc''"
    by (auto simp add: sortOrder_def isValidSortOrder_def split: option.splits)
  from sortField_valid [of q] sortOrder_valid [of q] a b c d e g h
  show ?thesis by blast
qed

theorem whitelisted_sort_and_search_witness:
  "q_search odd_query = Some ''password:x''
   \<and> at_index (split CHR '':'' ''password:x'') 0 = Some ''password''
   \<and> searchField odd_query = None
   \<and> q_sort odd_query = Some ''attempt:up''
   \<and> at_index (split CHR '':'' ''attempt:up'') 0 = Some ''attempt''
   \<and> at_index (split CHR '':'' ''attempt:up'') 1 = Some ''up''
   \<and> sortField odd_query = ''email''
   \<and> sortOrder odd_query = ''asc''
   \<and> isValidSortField (Some ''name'') = ''name''
   \<and> isValidSortOrder (Some ''desc'') = ''desc''
   \<and> isValidSearchField (Some ''name'') = Some ''name''"
proof -
  have p: "q_search odd_query = Some ''password:x''"
    "at_index (split CHR '':'' ''password:x'') 0 = Some ''password''"
    "q_sort odd_query = Some ''attempt:up''"
    "at_index (split CHR '':'' ''attempt:up'') 0 = Some ''attempt''"
    "at_index (split CHR '':'' ''attempt:up'') 1 = Some ''up''"
    by (simp_all add: odd_query_def)
  from whitelisted_sort_and_search [of odd_query "Some ''name''" "Some ''desc''" "Some ''name''"] p
  show ?thesis by simp
qed


end
